theory Spec2Isabelle
  imports Main
begin

section \<open>Data model\<close>

text \<open>
  The program is the class \<open>FilmIndustryDataScraper\<close> of \<open>scraper.py\<close>. Python strings are
  modelled as \<open>string\<close>; every literal of the source is ASCII, and a slice \<open>s[:500]\<close> is
  \<open>take 500 s\<close>.

  A value of \<open>exn\<close> stands for an instance of Python's \<open>Exception\<close> class, which is what the
  calls into requests, BeautifulSoup, selenium and random raise; the string is its message.
  A call that may raise returns \<open>exn + 'a\<close>, with \<open>Inl\<close> for the raised exception.
  The diagnostic \<open>print\<close> calls, the request headers and \<open>time.sleep(3)\<close> change no result
  and are left out.
\<close>

datatype exn = Exception string

text \<open>
  \<open>try_bind\<close> sequences two steps of a \<open>try\<close> body: when the first raises, the second
  does not run and the exception travels on.
\<close>

definition try_bind :: "exn + 'a \<Rightarrow> ('a \<Rightarrow> exn + 'b) \<Rightarrow> exn + 'b" where
  "try_bind m f = (case m of Inl e \<Rightarrow> Inl e | Inr x \<Rightarrow> f x)"

text \<open>A job is the dict with the keys \<open>title\<close>, \<open>description\<close>, \<open>location\<close>, \<open>source\<close>.\<close>

record job =
  title :: string
  description :: string
  location :: string
  source :: string

subsection \<open>The external collaborators\<close>

text \<open>
  A BeautifulSoup \<open>Tag\<close> (the parsed document is one too) is characterised by what the
  calls made on it answer in this run: \<open>get_text(strip=True)\<close>, \<open>find(name, class_=c)\<close>,
  which answers \<open>None\<close> or a tag, and \<open>find_all(name, class_=c)\<close>. A tag object is always
  truthy in Python, so \<open>if title and description\<close> tests that neither is \<open>None\<close>.
\<close>

datatype tag = Tag
  (get_text: "exn + string")
  (find_tag: "string \<Rightarrow> string \<Rightarrow> exn + tag option")
  (find_all: "string \<Rightarrow> string \<Rightarrow> exn + tag list")

text \<open>
  A selenium \<open>WebElement\<close>: its \<open>text\<close> property and \<open>find_element(By.CSS_SELECTOR, sel)\<close>,
  which raises \<open>NoSuchElementException\<close> when nothing matches.
\<close>

datatype web_element = WebElement
  (element_text: "exn + string")
  (find_element: "string \<Rightarrow> exn + web_element")

text \<open>A selenium driver: \<open>get(url)\<close>, \<open>find_elements(By.CSS_SELECTOR, sel)\<close> and \<open>quit()\<close>.\<close>

record driver =
  driver_get :: "string \<Rightarrow> exn + unit"
  find_elements :: "string \<Rightarrow> exn + web_element list"
  quit :: "exn + unit"

text \<open>
  The world outside the process, as far as one run observes it: the answer of
  \<open>requests.get(url, headers=...)\<close> (the response content), of
  \<open>BeautifulSoup(content, 'html.parser')\<close> and of \<open>webdriver.Chrome(options=...)\<close>.
\<close>

record world =
  requests_get :: "string \<Rightarrow> exn + string"
  BeautifulSoup :: "string \<Rightarrow> exn + tag"
  Chrome :: "exn + driver"

section \<open>Source adapters\<close>

subsection \<open>ProductionHUB\<close>

text \<open>
  The body of the inner \<open>try\<close> of \<open>scrape_production_hub\<close> for one \<open>job_element\<close>:
  \<open>Inr (Some j)\<close> when a job is appended, \<open>Inr None\<close> when the \<open>if\<close> fails, \<open>Inl e\<close> when a
  call raises.
\<close>

definition production_hub_job :: "tag \<Rightarrow> exn + job option" where
  "production_hub_job job_element =
     try_bind (find_tag job_element ''h3'' ''job-title'') (\<lambda>title_tag.
     try_bind (find_tag job_element ''div'' ''job-description'') (\<lambda>description_tag.
     try_bind (find_tag job_element ''span'' ''location'') (\<lambda>location_tag.
       case (title_tag, description_tag) of
         (Some t, Some d) \<Rightarrow>
           try_bind (get_text t) (\<lambda>title_text.
           try_bind (get_text d) (\<lambda>description_text.
           try_bind (case location_tag of
                       Some l \<Rightarrow> get_text l
                     | None \<Rightarrow> Inr ''Remote'') (\<lambda>location_text.
             Inr (Some \<lparr>title = title_text,
                        description = take 500 description_text,
                        location = location_text,
                        source = ''ProductionHUB''\<rparr>))))
       | _ \<Rightarrow> Inr None)))"

text \<open>
  The \<open>for\<close> loop with its inner \<open>try\<close>/\<open>except Exception\<close>: an element whose extraction
  raises is skipped (\<open>continue\<close>), and \<open>jobs\<close> grows at its end.
\<close>

fun production_hub_loop :: "tag list \<Rightarrow> job list \<Rightarrow> job list" where
  "production_hub_loop [] jobs = jobs"
| "production_hub_loop (job_element # rest) jobs =
     (case production_hub_job job_element of
        Inl e \<Rightarrow> production_hub_loop rest jobs
      | Inr None \<Rightarrow> production_hub_loop rest jobs
      | Inr (Some j) \<Rightarrow> production_hub_loop rest (jobs @ [j]))"

text \<open>
  The outer \<open>try\<close> body, started with the list \<open>jobs\<close>, and the whole method: the outer
  \<open>except Exception\<close> prints and falls through to \<open>return jobs\<close>. Every step that raises in
  the outer body comes before the loop, so \<open>jobs\<close> is still the empty list there.
\<close>

definition production_hub_body :: "world \<Rightarrow> job list \<Rightarrow> exn + job list" where
  "production_hub_body w jobs =
     try_bind (requests_get w ''https://www.productionhub.com/jobs'') (\<lambda>content.
     try_bind (BeautifulSoup w content) (\<lambda>soup.
     try_bind (find_all soup ''div'' ''job-listing'') (\<lambda>job_elements.
       Inr (production_hub_loop (take 20 job_elements) jobs))))"

definition scrape_production_hub :: "world \<Rightarrow> exn + job list" where
  "scrape_production_hub w =
     (let jobs = [] in
      case production_hub_body w jobs of
        Inl e \<Rightarrow> Inr jobs
      | Inr jobs' \<Rightarrow> Inr jobs')"

subsection \<open>FilmJobs.com\<close>

text \<open>
  The body of the inner \<open>try\<close> of \<open>scrape_film_jobs_com\<close> for one \<open>job_element\<close>. There is
  no \<open>if\<close> here: each of the three \<open>find_element(...).text\<close> either answers or raises.
\<close>

definition film_jobs_com_job :: "web_element \<Rightarrow> exn + job" where
  "film_jobs_com_job job_element =
     try_bind (try_bind (find_element job_element ''.job-title'') element_text) (\<lambda>title_text.
     try_bind (try_bind (find_element job_element ''.job-description'') element_text)
       (\<lambda>description_text.
     try_bind (try_bind (find_element job_element ''.job-location'') element_text)
       (\<lambda>location_text.
       Inr \<lparr>title = title_text,
            description = take 500 description_text,
            location = location_text,
            source = ''FilmJobs.com''\<rparr>)))"

fun film_jobs_com_loop :: "web_element list \<Rightarrow> job list \<Rightarrow> job list" where
  "film_jobs_com_loop [] jobs = jobs"
| "film_jobs_com_loop (job_element # rest) jobs =
     (case film_jobs_com_job job_element of
        Inl e \<Rightarrow> film_jobs_com_loop rest jobs
      | Inr j \<Rightarrow> film_jobs_com_loop rest (jobs @ [j]))"

text \<open>
  The calls made on the driver are logged, in order, so that the release of the browser
  session is observable. The outer \<open>try\<close> body answers how it ended, the list \<open>jobs\<close> as it
  stands then, and the log. \<open>driver.quit()\<close> is the last statement of the body, after the
  loop.
\<close>

datatype driver_call = Get | FindElements | Quit

definition film_jobs_com_body ::
  "world \<Rightarrow> job list \<Rightarrow> (exn + unit) \<times> job list \<times> driver_call list" where
  "film_jobs_com_body w jobs =
     (case Chrome w of
        Inl e \<Rightarrow> (Inl e, jobs, [])
      | Inr driver \<Rightarrow>
          (case driver_get driver ''https://www.filmjobs.com'' of
             Inl e \<Rightarrow> (Inl e, jobs, [Get])
           | Inr _ \<Rightarrow>
               (case find_elements driver ''.job-item'' of
                  Inl e \<Rightarrow> (Inl e, jobs, [Get, FindElements])
                | Inr job_elements \<Rightarrow>
                    (quit driver,
                     film_jobs_com_loop (take 15 job_elements) jobs,
                     [Get, FindElements, Quit]))))"

text \<open>
  The method: whatever the body did, the outer \<open>except Exception\<close> prints and \<open>return jobs\<close>
  follows. The second component is the log of driver calls.
\<close>

definition scrape_film_jobs_com :: "world \<Rightarrow> (exn + job list) \<times> driver_call list" where
  "scrape_film_jobs_com w =
     (case film_jobs_com_body w [] of
        (Inl e, jobs, calls) \<Rightarrow> (Inr jobs, calls)
      | (Inr _, jobs, calls) \<Rightarrow> (Inr jobs, calls))"

subsection \<open>Mandy Network\<close>

definition mandy_network_job :: "tag \<Rightarrow> exn + job option" where
  "mandy_network_job job_element =
     try_bind (find_tag job_element ''h2'' ''job-title'') (\<lambda>title_tag.
     try_bind (find_tag job_element ''div'' ''job-summary'') (\<lambda>description_tag.
     try_bind (find_tag job_element ''span'' ''location'') (\<lambda>location_tag.
       case (title_tag, description_tag) of
         (Some t, Some d) \<Rightarrow>
           try_bind (get_text t) (\<lambda>title_text.
           try_bind (get_text d) (\<lambda>description_text.
           try_bind (case location_tag of
                       Some l \<Rightarrow> get_text l
                     | None \<Rightarrow> Inr ''Remote'') (\<lambda>location_text.
             Inr (Some \<lparr>title = title_text,
                        description = take 500 description_text,
                        location = location_text,
                        source = ''Mandy Network''\<rparr>))))
       | _ \<Rightarrow> Inr None)))"

fun mandy_network_loop :: "tag list \<Rightarrow> job list \<Rightarrow> job list" where
  "mandy_network_loop [] jobs = jobs"
| "mandy_network_loop (job_element # rest) jobs =
     (case mandy_network_job job_element of
        Inl e \<Rightarrow> mandy_network_loop rest jobs
      | Inr None \<Rightarrow> mandy_network_loop rest jobs
      | Inr (Some j) \<Rightarrow> mandy_network_loop rest (jobs @ [j]))"

definition mandy_network_body :: "world \<Rightarrow> job list \<Rightarrow> exn + job list" where
  "mandy_network_body w jobs =
     try_bind (requests_get w ''https://www.mandy.com/jobs'') (\<lambda>content.
     try_bind (BeautifulSoup w content) (\<lambda>soup.
     try_bind (find_all soup ''div'' ''job-card'') (\<lambda>job_elements.
       Inr (mandy_network_loop (take 10 job_elements) jobs))))"

definition scrape_mandy_network :: "world \<Rightarrow> exn + job list" where
  "scrape_mandy_network w =
     (let jobs = [] in
      case mandy_network_body w jobs of
        Inl e \<Rightarrow> Inr jobs
      | Inr jobs' \<Rightarrow> Inr jobs')"

section \<open>Reference vocabularies\<close>

text \<open>
  The attributes set by \<open>__init__\<close>. \<open>film_locations\<close> is a dict; its \<open>values()\<close> come in
  insertion order, so it is an association list.
\<close>

definition film_locations :: "(string \<times> string list) list" where
  "film_locations =
     [(''United States'', [''Los Angeles'', ''New York'', ''Atlanta'', ''Chicago'', ''Austin'', ''San Francisco'']),
      (''India'', [''Mumbai'', ''Chennai'', ''Hyderabad'', ''Kolkata'', ''Pune'', ''Bangalore'']),
      (''United Kingdom'', [''London'', ''Manchester'', ''Glasgow'', ''Cardiff'']),
      (''France'', [''Paris'', ''Cannes'', ''Lyon'']),
      (''Germany'', [''Berlin'', ''Munich'', ''Hamburg'']),
      (''Italy'', [''Rome'', ''Milan'', ''Venice'']),
      (''Spain'', [''Madrid'', ''Barcelona'', ''Valencia'']),
      (''Canada'', [''Toronto'', ''Vancouver'', ''Montreal''])]"

definition film_categories :: "string list" where
  "film_categories =
     [''Director'',
      ''Producer'',
      ''Cinematographer'',
      ''Editor'',
      ''Sound Designer'',
      ''Production Designer'',
      ''Costume Designer'',
      ''Makeup Artist'',
      ''Visual Effects'',
      ''Screenwriter'',
      ''Casting Director'',
      ''Location Manager'',
      ''Script Supervisor'',
      ''Gaffer'',
      ''Grip'',
      ''Boom Operator'',
      ''Assistant Director'',
      ''Stunt Coordinator'']"

definition film_skills :: "string list" where
  "film_skills =
     [''Final Cut Pro'',
      ''Avid Media Composer'',
      ''Adobe Premiere Pro'',
      ''After Effects'',
      ''Cinema 4D'',
      ''Maya'',
      ''Blender'',
      ''Pro Tools'',
      ''Logic Pro'',
      ''RED Camera'',
      ''ARRI Alexa'',
      ''Steadicam'',
      ''Drone Operation'',
      ''Color Grading'',
      ''Foley'',
      ''Motion Graphics'',
      ''Storyboarding'',
      ''Script Analysis'',
      ''Budgeting'']"

text \<open>The comprehension \<open>[city for cities in self.film_locations.values() for city in cities]\<close>.\<close>

definition all_cities :: "string list" where
  "all_cities = concat (map snd film_locations)"

section \<open>The random source\<close>

text \<open>
  The state of Python's \<open>random\<close> module is a stream of raw draws; \<open>randbelow n\<close> consumes
  one and answers a number below \<open>n\<close>, so every answer the module can give is the answer
  for some stream. A call on the module takes the state and returns the new one, beside
  its result or the exception it raised.
\<close>

type_synonym random_state = "nat \<Rightarrow> nat"

definition randbelow :: "nat \<Rightarrow> random_state \<Rightarrow> nat \<times> random_state" where
  "randbelow n g = (g 0 mod n, \<lambda>i. g (Suc i))"

definition rand_bind ::
  "(random_state \<Rightarrow> (exn + 'a) \<times> random_state) \<Rightarrow>
   ('a \<Rightarrow> random_state \<Rightarrow> (exn + 'b) \<times> random_state) \<Rightarrow>
   random_state \<Rightarrow> (exn + 'b) \<times> random_state" where
  "rand_bind m f g = (case m g of (Inl e, g') \<Rightarrow> (Inl e, g') | (Inr x, g') \<Rightarrow> f x g')"

text \<open>\<open>random.choice(seq)\<close>: \<open>IndexError\<close> on an empty sequence.\<close>

definition choice :: "'a list \<Rightarrow> random_state \<Rightarrow> (exn + 'a) \<times> random_state" where
  "choice seq g =
     (if length seq = 0 then (Inl (Exception ''IndexError''), g)
      else (case randbelow (length seq) g of (i, g') \<Rightarrow> (Inr (seq ! i), g')))"

text \<open>
  \<open>random.randint(a, b)\<close> is \<open>a + randbelow(b - a + 1)\<close>, and \<open>ValueError\<close> on an empty range.
  The source calls it with the literals 3 and 8, so the bounds are naturals.
\<close>

definition randint :: "nat \<Rightarrow> nat \<Rightarrow> random_state \<Rightarrow> (exn + nat) \<times> random_state" where
  "randint a b g =
     (if b < a then (Inl (Exception ''ValueError''), g)
      else (case randbelow (b - a + 1) g of (r, g') \<Rightarrow> (Inr (a + r), g')))"

text \<open>
  \<open>random.sample(population, k)\<close>: \<open>ValueError\<close> when \<open>k\<close> exceeds the population, else CPython's
  pool selection, which is the branch taken for a population of at most 21 elements (the
  skills vocabulary has 19): draw \<open>j\<close> below the number of elements still in the pool, take
  \<open>pool[j]\<close>, and move the last element of the pool into the vacancy.
\<close>

fun sample_pool :: "'a list \<Rightarrow> nat \<Rightarrow> random_state \<Rightarrow> 'a list \<times> random_state" where
  "sample_pool pool 0 g = ([], g)"
| "sample_pool pool (Suc k) g =
     (case randbelow (length pool) g of (j, g') \<Rightarrow>
        (case sample_pool (butlast (pool[j := last pool])) k g' of (result, g'') \<Rightarrow>
           (pool ! j # result, g'')))"

definition sample :: "'a list \<Rightarrow> nat \<Rightarrow> random_state \<Rightarrow> (exn + 'a list) \<times> random_state" where
  "sample population k g =
     (if length population < k then (Inl (Exception ''ValueError''), g)
      else (case sample_pool population k g of (result, g') \<Rightarrow> (Inr result, g')))"

section \<open>Synthetic generator\<close>

subsection \<open>Fallback jobs\<close>

definition job_titles :: "string list" where
  "job_titles =
     [''Senior Video Editor - Netflix Original Series'',
      ''Director of Photography - Independent Film'',
      ''VFX Supervisor - Marvel Studios'',
      ''Sound Designer - A24 Horror Film'',
      ''Production Designer - HBO Max Series'',
      ''Cinematographer - Documentary Film'',
      ''Assistant Director - Warner Bros Feature'',
      ''Makeup Department Head - Disney+ Fantasy'',
      ''Gaffer - Apple TV+ Drama Series'',
      ''Script Supervisor - Amazon Prime Thriller'',
      ''Casting Director - Indie Romance Film'',
      ''Location Manager - Netflix Action Series'',
      ''Stunt Coordinator - Fast & Furious Franchise'',
      ''Costume Designer - Period Drama Film'',
      ''Boom Operator - Sitcom Production'']"

definition job_descriptions :: "string list" where
  "job_descriptions =
     [''Seeking experienced editor for high-profile streaming series. Must have extensive experience with Avid Media Composer and collaborative post-production workflows.'',
      ''Looking for skilled cinematographer to shoot independent feature film. RED camera experience and natural lighting expertise required.'',
      ''VFX Supervisor needed for major superhero film. Strong background in Maya, Nuke, and team management essential.'',
      ''Sound designer for atmospheric horror film. Experience with Pro Tools, Foley recording, and sound library management preferred.'',
      ''Production designer for fantasy series set in medieval times. Strong attention to historical detail and large-scale set design required.'',
      ''Cinematographer for environmental documentary. Drone operation license and wildlife filming experience preferred.'',
      ''Assistant director for big-budget action film. Strong organizational skills and high-pressure set experience required.'',
      ''Makeup department head for fantasy series. Prosthetics, special effects makeup, and team leadership experience needed.'',
      ''Gaffer for critically acclaimed drama series. LED lighting expertise and color temperature mastery required.'',
      ''Script supervisor for psychological thriller. Continuity experience and meticulous attention to detail essential.'',
      ''Casting director for romantic comedy film. Strong industry connections and talent evaluation skills required.'',
      ''Location manager for action series. Scouting experience and permit negotiation skills essential.'',
      ''Stunt coordinator for major action franchise. Safety certification and wire work experience required.'',
      ''Costume designer for 1940s period drama. Historical research skills and fabric knowledge essential.'',
      ''Boom operator for multi-camera sitcom. Live audience experience and microphone technique expertise required.'']"

text \<open>
  The loop \<open>for i, title in enumerate(job_titles)\<close> of \<open>generate_fallback_jobs\<close>. The index
  \<open>i % len(job_descriptions)\<close> is in range, the description list being non-empty.
\<close>

fun fallback_loop ::
  "(nat \<times> string) list \<Rightarrow> job list \<Rightarrow> random_state \<Rightarrow> (exn + job list) \<times> random_state" where
  "fallback_loop [] jobs g = (Inr jobs, g)"
| "fallback_loop ((i, title_i) # rest) jobs g =
     (case choice all_cities g of
        (Inl e, g') \<Rightarrow> (Inl e, g')
      | (Inr location_i, g') \<Rightarrow>
          fallback_loop rest
            (jobs @ [\<lparr>title = title_i,
                      description = job_descriptions ! (i mod length job_descriptions),
                      location = location_i,
                      source = ''Generated''\<rparr>]) g')"

definition generate_fallback_jobs :: "random_state \<Rightarrow> (exn + job list) \<times> random_state" where
  "generate_fallback_jobs g = fallback_loop (enumerate 0 job_titles) [] g"

section \<open>Aggregator\<close>

text \<open>
  \<open>scrape_film_jobs\<close> extends \<open>jobs\<close> with what each adapter returns, in the order of the
  source; an exception leaving an adapter would leave the aggregator too. The fallback runs
  when \<open>not jobs\<close>, that is when the list is empty. The log of driver calls is dropped here.
\<close>

definition scrape_film_jobs ::
  "world \<Rightarrow> random_state \<Rightarrow> (exn + job list) \<times> random_state" where
  "scrape_film_jobs w g =
     (case scrape_production_hub w of
        Inl e \<Rightarrow> (Inl e, g)
      | Inr jobs1 \<Rightarrow>
          (case fst (scrape_film_jobs_com w) of
             Inl e \<Rightarrow> (Inl e, g)
           | Inr jobs2 \<Rightarrow>
               (case scrape_mandy_network w of
                  Inl e \<Rightarrow> (Inl e, g)
                | Inr jobs3 \<Rightarrow>
                    (let jobs = (([] @ jobs1) @ jobs2) @ jobs3 in
                     if jobs = [] then generate_fallback_jobs g else (Inr jobs, g)))))"

subsection \<open>Professional profiles\<close>

record professional =
  firstName :: string
  lastName :: string
  role :: string
  bio :: string
  skills :: "string list"
  experience :: string
  location_prof :: string

definition first_names :: "string list" where
  "first_names =
     [''Christopher'',
      ''Jennifer'',
      ''Michael'',
      ''Sarah'',
      ''David'',
      ''Emma'',
      ''Robert'',
      ''Lisa'',
      ''James'',
      ''Amanda'',
      ''Daniel'',
      ''Rachel'',
      ''Matthew'',
      ''Jessica'',
      ''Andrew'',
      ''Emily'',
      ''Ryan'',
      ''Ashley'',
      ''Kevin'',
      ''Michelle'',
      ''Brian'',
      ''Nicole'',
      ''John'',
      ''Stephanie'']"

definition last_names :: "string list" where
  "last_names =
     [''Anderson'',
      ''Johnson'',
      ''Williams'',
      ''Brown'',
      ''Jones'',
      ''Garcia'',
      ''Miller'',
      ''Davis'',
      ''Rodriguez'',
      ''Martinez'',
      ''Hernandez'',
      ''Lopez'',
      ''Gonzalez'',
      ''Wilson'',
      ''Anderson'',
      ''Thomas'',
      ''Taylor'',
      ''Moore'',
      ''Jackson'',
      ''Martin'',
      ''Lee'',
      ''Perez'',
      ''Thompson'']"

definition film_bios :: "string list" where
  "film_bios =
     [''Award-winning filmmaker with over 15 years of experience in documentary and narrative film production.'',
      ''Experienced cinematographer specializing in natural light photography and handheld camera work.'',
      ''Post-production specialist with expertise in color grading, sound design, and visual effects.'',
      ''Creative producer with a proven track record of successful independent film projects.'',
      ''Visual effects artist with experience in both practical effects and digital compositing.'',
      ''Screenwriter focused on character-driven narratives and contemporary social issues.'',
      ''Production designer with extensive experience in period films and television series.'',
      ''Sound engineer specializing in location recording and post-production audio mixing.'']"

definition experiences :: "string list" where
  \<open>experiences =
     [''Lead Editor - "Midnight Stories" (2023)'',
      ''Director of Photography - "Urban Legends" (2022)'',
      ''VFX Supervisor - "Digital Dreams" (2023)'',
      ''Sound Designer - "Whispers in the Dark" (2022)'',
      ''Production Designer - "The Last Dance" (2023)'',
      ''Assistant Director - "City Lights" TV Series (2021-2023)'',
      ''Makeup Artist - "Fantasy Realm" (2022)'',
      ''Gaffer - "Commercial Campaign" (2023)'',
      ''Script Supervisor - "Detective Stories" (2022)'',
      ''Casting Director - "Love in the City" (2023)'']\<close>

definition generate_film_experience :: "random_state \<Rightarrow> (exn + string) \<times> random_state" where
  "generate_film_experience g = choice experiences g"

text \<open>
  One pass of the loop of \<open>scrape_film_professionals\<close>: the dict display evaluates its
  values in order, and the count for \<open>random.sample\<close> is drawn before the sample. The field
  \<open>location_prof\<close> is the key \<open>location\<close> of the profile dict, renamed apart from the job's.
\<close>

definition make_professional :: "random_state \<Rightarrow> (exn + professional) \<times> random_state" where
  "make_professional =
     rand_bind (choice first_names) (\<lambda>first.
     rand_bind (choice last_names) (\<lambda>last.
     rand_bind (choice film_categories) (\<lambda>r.
     rand_bind (choice film_bios) (\<lambda>b.
     rand_bind (randint 3 8) (\<lambda>k.
     rand_bind (sample film_skills k) (\<lambda>sk.
     rand_bind generate_film_experience (\<lambda>ex.
     rand_bind (choice all_cities) (\<lambda>loc g.
       (Inr \<lparr>firstName = first, lastName = last, role = r, bio = b, skills = sk,
             experience = ex, location_prof = loc\<rparr>, g)))))))))"

fun professionals_loop ::
  "nat \<Rightarrow> professional list \<Rightarrow> random_state \<Rightarrow> (exn + professional list) \<times> random_state" where
  "professionals_loop 0 professionals g = (Inr professionals, g)"
| "professionals_loop (Suc n) professionals g =
     (case make_professional g of
        (Inl e, g') \<Rightarrow> (Inl e, g')
      | (Inr p, g') \<Rightarrow> professionals_loop n (professionals @ [p]) g')"

definition scrape_film_professionals ::
  "random_state \<Rightarrow> (exn + professional list) \<times> random_state" where
  "scrape_film_professionals g = professionals_loop 100 [] g"

section \<open>Concrete runs and specification shorthands\<close>

text \<open>
  Builders for concrete pages, browser sessions and worlds, the runs the theorems below are
  evaluated on, and shorthands used in the statements.
\<close>

abbreviation production_hub_kept :: "tag \<Rightarrow> job list" where
  "production_hub_kept e \<equiv> (case production_hub_job e of Inr (Some j) \<Rightarrow> [j] | _ \<Rightarrow> [])"

abbreviation film_jobs_com_kept :: "web_element \<Rightarrow> job list" where
  "film_jobs_com_kept e \<equiv> (case film_jobs_com_job e of Inr j \<Rightarrow> [j] | _ \<Rightarrow> [])"

abbreviation mandy_network_kept :: "tag \<Rightarrow> job list" where
  "mandy_network_kept e \<equiv> (case mandy_network_job e of Inr (Some j) \<Rightarrow> [j] | _ \<Rightarrow> [])"

abbreviation fallback_job :: "random_state \<Rightarrow> nat \<times> nat \<times> string \<Rightarrow> job" where
  "fallback_job g \<equiv> \<lambda>(k, i, t).
     \<lparr>title = t,
      description = job_descriptions ! (i mod length job_descriptions),
      location = all_cities ! (g k mod length all_cities),
      source = ''Generated''\<rparr>"

abbreviation valid_professional :: "professional \<Rightarrow> bool" where
  "valid_professional p \<equiv>
     3 \<le> length (skills p) \<and> length (skills p) \<le> 8 \<and> distinct (skills p) \<and>
     set (skills p) \<subseteq> set film_skills \<and>
     role p \<in> set film_categories \<and>
     location_prof p \<in> set all_cities"

definition text_tag :: "string \<Rightarrow> tag" where
  "text_tag s = Tag (Inr s) (\<lambda>name c. Inr None) (\<lambda>name c. Inr [])"

definition element_with :: "(string \<times> string \<rightharpoonup> tag) \<Rightarrow> tag" where
  "element_with children =
     Tag (Inr '''') (\<lambda>name c. Inr (children (name, c))) (\<lambda>name c. Inr [])"

definition document :: "string \<Rightarrow> string \<Rightarrow> tag list \<Rightarrow> tag" where
  "document name c es =
     Tag (Inr '''') (\<lambda>n k. Inr None) (\<lambda>n k. Inr (if n = name \<and> k = c then es else []))"

definition web_text :: "string \<Rightarrow> web_element" where
  "web_text s = WebElement (Inr s) (\<lambda>sel. Inl (Exception ''NoSuchElementException''))"

definition web_item :: "(string \<rightharpoonup> web_element) \<Rightarrow> web_element" where
  "web_item children =
     WebElement (Inr '''')
       (\<lambda>sel. case children sel of
                 None \<Rightarrow> Inl (Exception ''NoSuchElementException'')
               | Some e \<Rightarrow> Inr e)"

definition browser :: "web_element list \<Rightarrow> driver" where
  "browser items =
     \<lparr>driver_get = \<lambda>url. Inr (),
      find_elements = \<lambda>sel. Inr (if sel = ''.job-item'' then items else []),
      quit = Inr ()\<rparr>"

definition make_world :: "tag list option \<Rightarrow> exn + driver \<Rightarrow> tag list option \<Rightarrow> world" where
  "make_world production_hub film_jobs mandy =
     \<lparr>requests_get = \<lambda>url.
        if url = ''https://www.productionhub.com/jobs'' \<and> production_hub \<noteq> None
          then Inr ''productionhub''
        else if url = ''https://www.mandy.com/jobs'' \<and> mandy \<noteq> None
          then Inr ''mandy''
        else Inl (Exception ''ConnectionError''),
      BeautifulSoup = \<lambda>content.
        if content = ''productionhub''
          then Inr (document ''div'' ''job-listing'' (case production_hub of Some es \<Rightarrow> es | None \<Rightarrow> []))
        else Inr (document ''div'' ''job-card'' (case mandy of Some es \<Rightarrow> es | None \<Rightarrow> [])),
      Chrome = film_jobs\<rparr>"

definition draws_zero :: random_state where
  "draws_zero = (\<lambda>i. 0)"

definition unreachable :: world where
  "unreachable = make_world None (Inl (Exception ''WebDriverException'')) None"

definition blank_title_world :: world where
  "blank_title_world =
     make_world
       (Some [element_with [(''h3'', ''job-title'') \<mapsto> text_tag '''',
                            (''div'', ''job-description'') \<mapsto> text_tag ''Two-day shoot'']])
       (Inl (Exception ''WebDriverException''))
       None"

definition partly_live_world :: world where
  "partly_live_world =
     make_world
       None
       (Inr (browser [web_item [''.job-title'' \<mapsto> web_text ''Gaffer'',
                                ''.job-description'' \<mapsto> web_text ''Night shoot'',
                                ''.job-location'' \<mapsto> web_text ''Austin'']]))
       (Some [element_with [(''h2'', ''job-title'') \<mapsto> text_tag ''Editor'',
                            (''div'', ''job-summary'') \<mapsto> text_tag ''Feature edit'']])"

definition no_location_world :: world where
  "no_location_world =
     make_world
       (Some [element_with [(''h3'', ''job-title'') \<mapsto> text_tag ''Gaffer'',
                            (''div'', ''job-description'') \<mapsto> text_tag ''Night shoot'']])
       (Inr (browser [web_item [''.job-title'' \<mapsto> web_text ''Gaffer'',
                                ''.job-description'' \<mapsto> web_text ''Night shoot'']]))
       None"

definition get_fails_world :: world where
  "get_fails_world =
     make_world
       None
       (Inr \<lparr>driver_get = \<lambda>url. Inl (Exception ''WebDriverException''),
             find_elements = \<lambda>sel. Inr [],
             quit = Inr ()\<rparr>)
       None"

definition long_text :: string where
  "long_text = replicate 501 (CHR ''x'')"

definition long_listing :: tag where
  "long_listing =
     element_with [(''h3'', ''job-title'') \<mapsto> text_tag ''Grip'',
                   (''div'', ''job-description'') \<mapsto> text_tag long_text]"

definition short_item :: web_element where
  "short_item =
     web_item [''.job-title'' \<mapsto> web_text ''Gaffer'',
               ''.job-description'' \<mapsto> web_text ''Night shoot'',
               ''.job-location'' \<mapsto> web_text ''Austin'']"

definition long_card :: tag where
  "long_card =
     element_with [(''h2'', ''job-title'') \<mapsto> text_tag ''Editor'',
                   (''div'', ''job-summary'') \<mapsto> text_tag long_text]"

definition short_listing :: tag where
  "short_listing =
     element_with [(''h3'', ''job-title'') \<mapsto> text_tag ''Gaffer'',
                   (''div'', ''job-description'') \<mapsto> text_tag ''Night shoot'']"

definition long_item :: web_element where
  "long_item =
     web_item [''.job-title'' \<mapsto> web_text ''Grip'',
               ''.job-description'' \<mapsto> web_text long_text,
               ''.job-location'' \<mapsto> web_text ''Austin'']"

definition short_card :: tag where
  "short_card =
     element_with [(''h2'', ''job-title'') \<mapsto> text_tag ''Editor'',
                   (''div'', ''job-summary'') \<mapsto> text_tag ''Feature edit'']"

definition zero_profile :: professional where
  "zero_profile =
     \<lparr>firstName = ''Christopher'', lastName = ''Anderson'', role = ''Director'',
      bio = ''Award-winning filmmaker with over 15 years of experience in documentary and narrative film production.'',
      skills = [''Final Cut Pro'', ''Budgeting'', ''Script Analysis''],
      experience = ''Lead Editor - '' @ [CHR 0x22] @ ''Midnight Stories'' @ [CHR 0x22] @ '' (2023)'',
      location_prof = ''Los Angeles''\<rparr>"

section \<open>Properties\<close>

subsection \<open>The adapters' loops\<close>

lemma try_bind_Inl [simp]: "try_bind (Inl e) f = Inl e"
  by (simp add: try_bind_def)

lemma try_bind_Inr [simp]: "try_bind (Inr x) f = f x"
  by (simp add: try_bind_def)

lemma production_hub_loop_concat:
  "production_hub_loop es jobs = jobs @ concat (map production_hub_kept es)"
  by (induction es arbitrary: jobs) (auto split: sum.splits option.splits)

lemma film_jobs_com_loop_concat:
  "film_jobs_com_loop es jobs = jobs @ concat (map film_jobs_com_kept es)"
  by (induction es arbitrary: jobs) (auto split: sum.splits)

lemma mandy_network_loop_concat:
  "mandy_network_loop es jobs = jobs @ concat (map mandy_network_kept es)"
  by (induction es arbitrary: jobs) (auto split: sum.splits option.splits)

lemma length_concat_le:
  "(\<And>x. length (f x) \<le> 1) \<Longrightarrow> length (concat (map f xs)) \<le> length xs"
proof (induction xs)
  case Nil
  then show ?case by simp
next
  case (Cons x xs)
  have "length (f x) \<le> 1" by (rule Cons.prems)
  moreover have "length (concat (map f xs)) \<le> length xs"
    by (rule Cons.IH) (rule Cons.prems)
  ultimately show ?case by simp
qed

lemma length_production_hub_loop: "length (production_hub_loop es []) \<le> length es"
  unfolding production_hub_loop_concat
  by (simp, rule length_concat_le) (simp split: sum.splits option.splits)

lemma length_film_jobs_com_loop: "length (film_jobs_com_loop es []) \<le> length es"
  unfolding film_jobs_com_loop_concat
  by (simp, rule length_concat_le) (simp split: sum.splits)

lemma length_mandy_network_loop: "length (mandy_network_loop es []) \<le> length es"
  unfolding mandy_network_loop_concat
  by (simp, rule length_concat_le) (simp split: sum.splits option.splits)

lemma production_hub_loop_mem:
  "j \<in> set (production_hub_loop es []) \<Longrightarrow> \<exists>e \<in> set es. production_hub_job e = Inr (Some j)"
  unfolding production_hub_loop_concat
  by (auto split: sum.splits option.splits)

lemma film_jobs_com_loop_mem:
  "j \<in> set (film_jobs_com_loop es []) \<Longrightarrow> \<exists>e \<in> set es. film_jobs_com_job e = Inr j"
  unfolding film_jobs_com_loop_concat
  by (auto split: sum.splits)

lemma mandy_network_loop_mem:
  "j \<in> set (mandy_network_loop es []) \<Longrightarrow> \<exists>e \<in> set es. mandy_network_job e = Inr (Some j)"
  unfolding mandy_network_loop_concat
  by (auto split: sum.splits option.splits)

lemma production_hub_job_Some:
  assumes "production_hub_job e = Inr (Some j)"
  shows "\<exists>t d tt dt lt. find_tag e ''h3'' ''job-title'' = Inr (Some t) \<and>
           find_tag e ''div'' ''job-description'' = Inr (Some d) \<and>
           get_text t = Inr tt \<and> get_text d = Inr dt \<and>
           (case find_tag e ''span'' ''location'' of
              Inr (Some l) \<Rightarrow> get_text l = Inr lt
            | Inr None \<Rightarrow> lt = ''Remote''
            | Inl x \<Rightarrow> False) \<and>
           j = \<lparr>title = tt, description = take 500 dt, location = lt,
                source = ''ProductionHUB''\<rparr>"
  using assms unfolding production_hub_job_def try_bind_def
  by (simp split: sum.splits option.splits)

lemma mandy_network_job_Some:
  assumes "mandy_network_job e = Inr (Some j)"
  shows "\<exists>t d tt dt lt. find_tag e ''h2'' ''job-title'' = Inr (Some t) \<and>
           find_tag e ''div'' ''job-summary'' = Inr (Some d) \<and>
           get_text t = Inr tt \<and> get_text d = Inr dt \<and>
           (case find_tag e ''span'' ''location'' of
              Inr (Some l) \<Rightarrow> get_text l = Inr lt
            | Inr None \<Rightarrow> lt = ''Remote''
            | Inl x \<Rightarrow> False) \<and>
           j = \<lparr>title = tt, description = take 500 dt, location = lt,
                source = ''Mandy Network''\<rparr>"
  using assms unfolding mandy_network_job_def try_bind_def
  by (simp split: sum.splits option.splits)

lemma film_jobs_com_job_Inr:
  assumes "film_jobs_com_job e = Inr j"
  shows "\<exists>t d l tt dt lt. find_element e ''.job-title'' = Inr t \<and>
           find_element e ''.job-description'' = Inr d \<and>
           find_element e ''.job-location'' = Inr l \<and>
           element_text t = Inr tt \<and> element_text d = Inr dt \<and> element_text l = Inr lt \<and>
           j = \<lparr>title = tt, description = take 500 dt, location = lt,
                source = ''FilmJobs.com''\<rparr>"
  using assms unfolding film_jobs_com_job_def try_bind_def
  by (simp split: sum.splits)

lemma scrape_production_hub_result:
  "\<exists>es. scrape_production_hub w = Inr (production_hub_loop (take 20 es) [])"
proof (cases "production_hub_body w []")
  case (Inl e)
  then have "scrape_production_hub w = Inr (production_hub_loop (take 20 []) [])"
    by (simp add: scrape_production_hub_def)
  then show ?thesis ..
next
  case (Inr jobs)
  then show ?thesis
    unfolding scrape_production_hub_def production_hub_body_def try_bind_def
    by (auto split: sum.splits)
qed

lemma scrape_mandy_network_result:
  "\<exists>es. scrape_mandy_network w = Inr (mandy_network_loop (take 10 es) [])"
proof (cases "mandy_network_body w []")
  case (Inl e)
  then have "scrape_mandy_network w = Inr (mandy_network_loop (take 10 []) [])"
    by (simp add: scrape_mandy_network_def)
  then show ?thesis ..
next
  case (Inr jobs)
  then show ?thesis
    unfolding scrape_mandy_network_def mandy_network_body_def try_bind_def
    by (auto split: sum.splits)
qed

lemma scrape_film_jobs_com_result:
  "\<exists>es. fst (scrape_film_jobs_com w) = Inr (film_jobs_com_loop (take 15 es) [])"
proof -
  have "fst (scrape_film_jobs_com w) = Inr (film_jobs_com_loop (take 15 []) []) \<or>
        (\<exists>es. fst (scrape_film_jobs_com w) = Inr (film_jobs_com_loop (take 15 es) []))"
    unfolding scrape_film_jobs_com_def film_jobs_com_body_def
    by (auto split: sum.splits)
  then show ?thesis by blast
qed

subsection \<open>The random source and the vocabularies\<close>

lemma length_all_cities: "length all_cities = 31"
  by (simp add: all_cities_def film_locations_def)

lemma length_job_titles: "length job_titles = 15"
  by (simp add: job_titles_def)

lemma length_job_descriptions: "length job_descriptions = 15"
  by (simp add: job_descriptions_def)

lemma length_film_skills: "length film_skills = 19"
  by (simp add: film_skills_def)

lemma distinct_film_skills: "distinct film_skills"
  by (simp add: film_skills_def)

lemma choice_nonempty:
  "seq \<noteq> [] \<Longrightarrow>
     choice seq g = (Inr (seq ! (g 0 mod length seq)), \<lambda>i. g (Suc i))"
  by (simp add: choice_def randbelow_def)

lemma choice_mem:
  assumes "seq \<noteq> []"
  shows "\<exists>x g'. choice seq g = (Inr x, g') \<and> x \<in> set seq"
proof -
  from assms have "g 0 mod length seq < length seq" by simp
  then have "seq ! (g 0 mod length seq) \<in> set seq" by (rule nth_mem)
  with choice_nonempty [OF assms, of g] show ?thesis by blast
qed

lemma randint_3_8:
  "\<exists>k g'. randint 3 8 g = (Inr k, g') \<and> 3 \<le> k \<and> k \<le> 8"
proof -
  have "g 0 mod 6 < 6" by simp
  then show ?thesis by (simp add: randint_def randbelow_def)
qed

lemma pool_step:
  assumes "distinct pool" and "j < length pool"
  shows "distinct (butlast (pool[j := last pool]))"
    and "set (butlast (pool[j := last pool])) = set pool - {pool ! j}"
    and "length (butlast (pool[j := last pool])) = length pool - 1"
proof -
  from assms(2) have ne: "pool \<noteq> []" by auto
  then obtain ys z where pool: "pool = ys @ [z]"
    by (metis append_butlast_last_id)
  from assms(1) pool have dys: "distinct ys" and z: "z \<notin> set ys" by auto
  show "length (butlast (pool[j := last pool])) = length pool - 1" by simp
  show "distinct (butlast (pool[j := last pool]))"
  proof (cases "j < length ys")
    case True
    then have "butlast (pool[j := last pool]) = ys[j := z]"
      by (simp add: pool list_update_append)
    moreover have "distinct (ys[j := z])"
      using dys z by (simp add: distinct_list_update)
    ultimately show ?thesis by simp
  next
    case False
    with assms(2) pool have "j = length ys" by simp
    then have "butlast (pool[j := last pool]) = ys" by (simp add: pool)
    with dys show ?thesis by simp
  qed
  show "set (butlast (pool[j := last pool])) = set pool - {pool ! j}"
  proof (cases "j < length ys")
    case True
    then have "butlast (pool[j := last pool]) = ys[j := z]"
      by (simp add: pool list_update_append)
    moreover have "set (ys[j := z]) = insert z (set ys - {ys ! j})"
      using dys True by (rule set_update_distinct)
    moreover have "pool ! j = ys ! j" using True by (simp add: pool nth_append)
    moreover have "ys ! j \<in> set ys" using True by simp
    ultimately show ?thesis using z by (auto simp: pool)
  next
    case False
    with assms(2) pool have j: "j = length ys" by simp
    then have "butlast (pool[j := last pool]) = ys" by (simp add: pool)
    moreover have "pool ! j = z" by (simp add: pool j)
    ultimately show ?thesis using z by (auto simp: pool)
  qed
qed

lemma sample_pool_props:
  "k \<le> length pool \<Longrightarrow> distinct pool \<Longrightarrow>
     length (fst (sample_pool pool k g)) = k \<and>
     distinct (fst (sample_pool pool k g)) \<and>
     set (fst (sample_pool pool k g)) \<subseteq> set pool"
proof (induction k arbitrary: pool g)
  case 0
  then show ?case by simp
next
  case (Suc k)
  let ?j = "g 0 mod length pool"
  let ?pool' = "butlast (pool[?j := last pool])"
  let ?g' = "\<lambda>i. g (Suc i)"
  from Suc.prems(1) have pos: "0 < length pool" by (cases pool) simp_all
  then have j: "?j < length pool" by simp
  note step = pool_step [OF Suc.prems(2) j]
  from Suc.prems(1) step(3) have "k \<le> length ?pool'" by simp
  from Suc.IH [OF this step(1), of ?g']
  have ih: "length (fst (sample_pool ?pool' k ?g')) = k"
    "distinct (fst (sample_pool ?pool' k ?g'))"
    "set (fst (sample_pool ?pool' k ?g')) \<subseteq> set ?pool'" by simp_all
  have eq: "fst (sample_pool pool (Suc k) g) = pool ! ?j # fst (sample_pool ?pool' k ?g')"
    by (simp add: randbelow_def split: prod.splits)
  have "pool ! ?j \<in> set pool" using j by simp
  with ih step(2) show ?case unfolding eq by auto
qed

lemma sample_film_skills:
  assumes "k \<le> 8"
  shows "\<exists>sk g'. sample film_skills k g = (Inr sk, g') \<and> length sk = k \<and> distinct sk \<and>
           set sk \<subseteq> set film_skills"
proof -
  from assms have k: "k \<le> length film_skills" by (simp add: length_film_skills)
  from sample_pool_props [OF k distinct_film_skills, of g]
  show ?thesis using k by (auto simp: sample_def split: prod.splits)
qed

subsection \<open>The synthetic generator\<close>

lemma all_cities_nonempty: "all_cities \<noteq> []"
  using length_all_cities by auto

lemma fallback_loop_eq:
  "fallback_loop xs jobs (\<lambda>i. g (n + i)) =
     (Inr (jobs @ map (fallback_job g) (enumerate n xs)), \<lambda>i. g (n + length xs + i))"
proof (induction xs arbitrary: jobs n)
  case Nil
  then show ?case by simp
next
  case (Cons x xs)
  obtain i t where x: "x = (i, t)" by (cases x)
  let ?j = "fallback_job g (n, i, t)"
  have draw: "choice all_cities (\<lambda>i. g (n + i)) =
                (Inr (all_cities ! (g n mod length all_cities)), \<lambda>i. g (Suc n + i))"
    by (simp add: choice_nonempty [OF all_cities_nonempty])
  have "fallback_loop (x # xs) jobs (\<lambda>i. g (n + i)) =
          fallback_loop xs (jobs @ [?j]) (\<lambda>i. g (Suc n + i))"
    unfolding x fallback_loop.simps draw by simp
  also have "\<dots> = (Inr ((jobs @ [?j]) @ map (fallback_job g) (enumerate (Suc n) xs)),
                     \<lambda>i. g (Suc n + length xs + i))"
    by (rule Cons.IH)
  also have "(jobs @ [?j]) @ map (fallback_job g) (enumerate (Suc n) xs) =
               jobs @ map (fallback_job g) (enumerate n (x # xs))"
    by (simp add: x)
  also have "(\<lambda>i. g (Suc n + length xs + i)) = (\<lambda>i. g (n + length (x # xs) + i))"
    by simp
  finally show ?case .
qed

lemma generate_fallback_jobs_eq:
  "generate_fallback_jobs g =
     (Inr (map (fallback_job g) (enumerate 0 (enumerate 0 job_titles))),
      \<lambda>i. g (length job_titles + i))"
  using fallback_loop_eq [of "enumerate 0 job_titles" "[]" g 0]
  by (simp add: generate_fallback_jobs_def)

lemma fallback_titles:
  "map title (map (fallback_job g) (enumerate 0 (enumerate 0 job_titles))) = job_titles"
  by (rule nth_equalityI) (simp_all add: nth_enumerate_eq)

lemma fallback_descriptions:
  "map description (map (fallback_job g) (enumerate 0 (enumerate 0 job_titles))) =
     job_descriptions"
  by (rule nth_equalityI)
    (simp_all add: nth_enumerate_eq length_job_titles length_job_descriptions)

lemma fallback_locations:
  "map location (map (fallback_job g) (enumerate 0 (enumerate 0 job_titles))) =
     map (\<lambda>k. all_cities ! (g k mod length all_cities)) [0..<length job_titles]"
  by (rule nth_equalityI) (simp_all add: nth_enumerate_eq)

lemma fallback_sources:
  "j \<in> set (map (fallback_job g) (enumerate 0 (enumerate 0 job_titles))) \<Longrightarrow>
     source j = ''Generated''"
  by auto

lemma job_titles_nonempty: "t \<in> set job_titles \<Longrightarrow> t \<noteq> []"
  by (auto simp: job_titles_def)

lemma job_descriptions_bounds:
  "d \<in> set job_descriptions \<Longrightarrow> d \<noteq> [] \<and> length d \<le> 500"
  by (auto simp: job_descriptions_def)

lemma make_professional_valid:
  "\<exists>p g'. make_professional g = (Inr p, g') \<and> valid_professional p"
proof -
  have fn: "first_names \<noteq> []" and ln: "last_names \<noteq> []" and fc: "film_categories \<noteq> []"
    and fb: "film_bios \<noteq> []" and ex: "experiences \<noteq> []"
    by (simp_all add: first_names_def last_names_def film_categories_def film_bios_def
        experiences_def)
  obtain a g1 where 1: "choice first_names g = (Inr a, g1)"
    using choice_mem [OF fn] by blast
  obtain b g2 where 2: "choice last_names g1 = (Inr b, g2)"
    using choice_mem [OF ln] by blast
  obtain r g3 where 3: "choice film_categories g2 = (Inr r, g3)" and r: "r \<in> set film_categories"
    using choice_mem [OF fc] by blast
  obtain bi g4 where 4: "choice film_bios g3 = (Inr bi, g4)"
    using choice_mem [OF fb] by blast
  obtain k g5 where 5: "randint 3 8 g4 = (Inr k, g5)" and k: "3 \<le> k" "k \<le> 8"
    using randint_3_8 by blast
  obtain sk g6 where 6: "sample film_skills k g5 = (Inr sk, g6)"
    and sk: "length sk = k" "distinct sk" "set sk \<subseteq> set film_skills"
    using sample_film_skills [OF k(2)] by blast
  obtain e g7 where 7: "choice experiences g6 = (Inr e, g7)"
    using choice_mem [OF ex] by blast
  obtain c g8 where 8: "choice all_cities g7 = (Inr c, g8)" and c: "c \<in> set all_cities"
    using choice_mem [OF all_cities_nonempty] by blast
  have "make_professional g =
          (Inr \<lparr>firstName = a, lastName = b, role = r, bio = bi, skills = sk,
                experience = e, location_prof = c\<rparr>, g8)"
    by (simp add: make_professional_def rand_bind_def generate_film_experience_def
        1 2 3 4 5 6 7 8)
  with r k sk c show ?thesis by simp
qed

lemma professionals_loop_valid:
  "\<exists>new g'. professionals_loop n professionals g = (Inr (professionals @ new), g') \<and>
     length new = n \<and> (\<forall>p \<in> set new. valid_professional p)"
proof (induction n arbitrary: professionals g)
  case 0
  then show ?case by simp
next
  case (Suc n)
  obtain p g1 where p: "make_professional g = (Inr p, g1)" and v: "valid_professional p"
    using make_professional_valid by blast
  obtain new g' where
    new: "professionals_loop n (professionals @ [p]) g1 = (Inr ((professionals @ [p]) @ new), g')"
    and len: "length new = n" and all: "\<forall>p \<in> set new. valid_professional p"
    using Suc.IH by blast
  have "professionals_loop (Suc n) professionals g = (Inr (professionals @ (p # new)), g')"
    by (simp add: p new)
  moreover have "length (p # new) = Suc n" using len by simp
  moreover have "\<forall>q \<in> set (p # new). valid_professional q" using v all by simp
  ultimately show ?case by blast
qed

lemmas concrete_defs =
  text_tag_def element_with_def document_def web_text_def web_item_def browser_def
  make_world_def

lemmas adapter_defs =
  scrape_production_hub_def production_hub_body_def production_hub_job_def
  scrape_film_jobs_com_def film_jobs_com_body_def film_jobs_com_job_def
  scrape_mandy_network_def mandy_network_body_def mandy_network_job_def

subsection \<open>Concrete runs of the adapters\<close>

lemma unreachable_runs:
  "scrape_production_hub unreachable = Inr []"
  "scrape_film_jobs_com unreachable = (Inr [], [])"
  "scrape_mandy_network unreachable = Inr []"
  by (simp_all add: unreachable_def concrete_defs adapter_defs)

lemma blank_title_runs:
  "scrape_production_hub blank_title_world =
     Inr [\<lparr>title = '''', description = ''Two-day shoot'', location = ''Remote'',
           source = ''ProductionHUB''\<rparr>]"
  "scrape_film_jobs_com blank_title_world = (Inr [], [])"
  "scrape_mandy_network blank_title_world = Inr []"
  by (simp_all add: blank_title_world_def concrete_defs adapter_defs)

lemma partly_live_runs:
  "scrape_production_hub partly_live_world = Inr []"
  "scrape_film_jobs_com partly_live_world =
     (Inr [\<lparr>title = ''Gaffer'', description = ''Night shoot'', location = ''Austin'',
            source = ''FilmJobs.com''\<rparr>], [Get, FindElements, Quit])"
  "scrape_mandy_network partly_live_world =
     Inr [\<lparr>title = ''Editor'', description = ''Feature edit'', location = ''Remote'',
           source = ''Mandy Network''\<rparr>]"
  by (simp_all add: partly_live_world_def concrete_defs adapter_defs)

lemma no_location_runs:
  "scrape_production_hub no_location_world =
     Inr [\<lparr>title = ''Gaffer'', description = ''Night shoot'', location = ''Remote'',
           source = ''ProductionHUB''\<rparr>]"
  "scrape_film_jobs_com no_location_world = (Inr [], [Get, FindElements, Quit])"
  by (simp_all add: no_location_world_def concrete_defs adapter_defs)

lemma get_fails_runs:
  "Chrome get_fails_world \<noteq> Inl e"
  "scrape_film_jobs_com get_fails_world = (Inr [], [Get])"
  by (simp_all add: get_fails_world_def concrete_defs adapter_defs)

subsection \<open>Aggregator output\<close>

lemma production_hub_job_facts:
  "production_hub_job e = Inr (Some j) \<Longrightarrow>
     source j = ''ProductionHUB'' \<and> length (description j) \<le> 500"
  by (drule production_hub_job_Some) auto

lemma film_jobs_com_job_facts:
  "film_jobs_com_job e = Inr j \<Longrightarrow>
     source j = ''FilmJobs.com'' \<and> length (description j) \<le> 500"
  by (drule film_jobs_com_job_Inr) auto

lemma mandy_network_job_facts:
  "mandy_network_job e = Inr (Some j) \<Longrightarrow>
     source j = ''Mandy Network'' \<and> length (description j) \<le> 500"
  by (drule mandy_network_job_Some) auto

lemma scrape_production_hub_mem:
  assumes "scrape_production_hub w = Inr jobs" and "j \<in> set jobs"
  shows "source j = ''ProductionHUB'' \<and> length (description j) \<le> 500"
proof -
  obtain es where "scrape_production_hub w = Inr (production_hub_loop (take 20 es) [])"
    using scrape_production_hub_result by blast
  with assms have "j \<in> set (production_hub_loop (take 20 es) [])" by simp
  then obtain e where "production_hub_job e = Inr (Some j)"
    using production_hub_loop_mem by blast
  then show ?thesis by (rule production_hub_job_facts)
qed

lemma scrape_film_jobs_com_mem:
  assumes "fst (scrape_film_jobs_com w) = Inr jobs" and "j \<in> set jobs"
  shows "source j = ''FilmJobs.com'' \<and> length (description j) \<le> 500"
proof -
  obtain es where "fst (scrape_film_jobs_com w) = Inr (film_jobs_com_loop (take 15 es) [])"
    using scrape_film_jobs_com_result by blast
  with assms have "j \<in> set (film_jobs_com_loop (take 15 es) [])" by simp
  then obtain e where "film_jobs_com_job e = Inr j"
    using film_jobs_com_loop_mem by blast
  then show ?thesis by (rule film_jobs_com_job_facts)
qed

lemma scrape_mandy_network_mem:
  assumes "scrape_mandy_network w = Inr jobs" and "j \<in> set jobs"
  shows "source j = ''Mandy Network'' \<and> length (description j) \<le> 500"
proof -
  obtain es where "scrape_mandy_network w = Inr (mandy_network_loop (take 10 es) [])"
    using scrape_mandy_network_result by blast
  with assms have "j \<in> set (mandy_network_loop (take 10 es) [])" by simp
  then obtain e where "mandy_network_job e = Inr (Some j)"
    using mandy_network_loop_mem by blast
  then show ?thesis by (rule mandy_network_job_facts)
qed

lemma adapters_return:
  obtains jobs1 jobs2 jobs3 where
    "scrape_production_hub w = Inr jobs1"
    "fst (scrape_film_jobs_com w) = Inr jobs2"
    "scrape_mandy_network w = Inr jobs3"
  using scrape_production_hub_result scrape_film_jobs_com_result scrape_mandy_network_result
  by blast

lemma scrape_film_jobs_eq:
  assumes "scrape_production_hub w = Inr jobs1"
    and "fst (scrape_film_jobs_com w) = Inr jobs2"
    and "scrape_mandy_network w = Inr jobs3"
  shows "scrape_film_jobs w g =
           (if jobs1 @ jobs2 @ jobs3 = [] then generate_fallback_jobs g
            else (Inr (jobs1 @ jobs2 @ jobs3), g))"
  using assms by (simp add: scrape_film_jobs_def)

lemma fallback_job_facts:
  assumes "j \<in> set (map (fallback_job g) (enumerate 0 (enumerate 0 job_titles)))"
  shows "source j = ''Generated'' \<and> title j \<noteq> [] \<and> description j \<noteq> [] \<and>
         length (description j) \<le> 500"
proof -
  let ?jobs = "map (fallback_job g) (enumerate 0 (enumerate 0 job_titles))"
  from assms have "title j \<in> set (map title ?jobs)" and "description j \<in> set (map description ?jobs)"
    by (auto simp del: map_map)
  then have "title j \<in> set job_titles" and "description j \<in> set job_descriptions"
    unfolding fallback_titles fallback_descriptions by simp_all
  with fallback_sources [OF assms] job_titles_nonempty job_descriptions_bounds
  show ?thesis by blast
qed

text \<open>
  Claim C1, counterexample. ProductionHUB answers one listing whose \<open>h3.job-title\<close> element is
  present with empty text, the other two sources fail. The guard \<open>if title and description\<close>
  tests the elements, not their text, so the aggregator emits a record whose title is the
  empty string.
\<close>

theorem blank_title_emitted:
  "fst (scrape_film_jobs blank_title_world draws_zero) =
     Inr [\<lparr>title = '''', description = ''Two-day shoot'', location = ''Remote'',
           source = ''ProductionHUB''\<rparr>]"
  by (simp add: scrape_film_jobs_def blank_title_runs)

text \<open>
  Claim C1, as the code has it. For every world and random source the aggregator returns a
  list, and every record in it has a description of at most 500 characters and a source
  among the three adapter names and \<open>Generated\<close>; the records marked \<open>Generated\<close> have a
  non-empty title and description. Non-emptiness of the text scraped by a live adapter is
  not guaranteed.
\<close>

theorem aggregator_records:
  "\<exists>jobs g'. scrape_film_jobs w g = (Inr jobs, g') \<and>
     (\<forall>j \<in> set jobs.
        length (description j) \<le> 500 \<and>
        source j \<in> {''ProductionHUB'', ''FilmJobs.com'', ''Mandy Network'', ''Generated''} \<and>
        (source j = ''Generated'' \<longrightarrow> title j \<noteq> [] \<and> description j \<noteq> []))"
proof -
  obtain jobs1 jobs2 jobs3 where
    r: "scrape_production_hub w = Inr jobs1" "fst (scrape_film_jobs_com w) = Inr jobs2"
      "scrape_mandy_network w = Inr jobs3"
    by (rule adapters_return)
  note eq = scrape_film_jobs_eq [OF r, of g]
  show ?thesis
  proof (cases "jobs1 @ jobs2 @ jobs3 = []")
    case True
    with eq have "scrape_film_jobs w g = generate_fallback_jobs g" by simp
    then have "scrape_film_jobs w g =
        (Inr (map (fallback_job g) (enumerate 0 (enumerate 0 job_titles))),
         \<lambda>i. g (length job_titles + i))"
      unfolding generate_fallback_jobs_eq .
    moreover have "\<forall>j \<in> set (map (fallback_job g) (enumerate 0 (enumerate 0 job_titles))).
        length (description j) \<le> 500 \<and>
        source j \<in> {''ProductionHUB'', ''FilmJobs.com'', ''Mandy Network'', ''Generated''} \<and>
        (source j = ''Generated'' \<longrightarrow> title j \<noteq> [] \<and> description j \<noteq> [])"
      using fallback_job_facts [of _ g] by blast
    ultimately show ?thesis by blast
  next
    case False
    with eq have "scrape_film_jobs w g = (Inr (jobs1 @ jobs2 @ jobs3), g)" by auto
    moreover have "\<forall>j \<in> set (jobs1 @ jobs2 @ jobs3).
        length (description j) \<le> 500 \<and>
        source j \<in> {''ProductionHUB'', ''FilmJobs.com'', ''Mandy Network'', ''Generated''} \<and>
        (source j = ''Generated'' \<longrightarrow> title j \<noteq> [] \<and> description j \<noteq> [])"
    proof
      fix j assume "j \<in> set (jobs1 @ jobs2 @ jobs3)"
      then consider "j \<in> set jobs1" | "j \<in> set jobs2" | "j \<in> set jobs3" by auto
      then show "length (description j) \<le> 500 \<and>
        source j \<in> {''ProductionHUB'', ''FilmJobs.com'', ''Mandy Network'', ''Generated''} \<and>
        (source j = ''Generated'' \<longrightarrow> title j \<noteq> [] \<and> description j \<noteq> [])"
      proof cases
        case 1
        from scrape_production_hub_mem [OF r(1) 1] show ?thesis by simp
      next
        case 2
        from scrape_film_jobs_com_mem [OF r(2) 2] show ?thesis by simp
      next
        case 3
        from scrape_mandy_network_mem [OF r(3) 3] show ?thesis by simp
      qed
    qed
    ultimately show ?thesis by blast
  qed
qed

text \<open>
  Claim C1, witness: with every source unreachable the output is the 15 fallback jobs, and
  its first record, a member of the output marked \<open>Generated\<close>, has the stated properties.
\<close>

theorem aggregator_records_witness:
  "(case fst (scrape_film_jobs unreachable draws_zero) of
      Inl e \<Rightarrow> False
    | Inr jobs \<Rightarrow>
        length jobs = 15 \<and> source (jobs ! 0) = ''Generated'' \<and>
        title (jobs ! 0) \<noteq> [] \<and> description (jobs ! 0) \<noteq> [] \<and>
        length (description (jobs ! 0)) \<le> 500)"
proof -
  obtain jobs g' where run: "scrape_film_jobs unreachable draws_zero = (Inr jobs, g')"
    and all: "\<forall>j \<in> set jobs.
        length (description j) \<le> 500 \<and>
        source j \<in> {''ProductionHUB'', ''FilmJobs.com'', ''Mandy Network'', ''Generated''} \<and>
        (source j = ''Generated'' \<longrightarrow> title j \<noteq> [] \<and> description j \<noteq> [])"
    using aggregator_records [of unreachable draws_zero] by blast
  have "scrape_film_jobs unreachable draws_zero = generate_fallback_jobs draws_zero"
    by (simp add: scrape_film_jobs_def unreachable_runs)
  with run have jobs: "jobs = map (fallback_job draws_zero) (enumerate 0 (enumerate 0 job_titles))"
    by (simp add: generate_fallback_jobs_eq)
  then have len: "length jobs = 15" by (simp add: length_job_titles)
  from jobs have src: "source (jobs ! 0) = ''Generated''"
    by (simp add: length_job_titles nth_enumerate_eq)
  from len have "jobs ! 0 \<in> set jobs" by simp
  with all src have "title (jobs ! 0) \<noteq> [] \<and> description (jobs ! 0) \<noteq> [] \<and>
      length (description (jobs ! 0)) \<le> 500" by blast
  with run len src show ?thesis by simp
qed

text \<open>
  Claim C2. When each of the three adapters returns the empty list, \<open>scrape_film_jobs\<close>
  returns exactly what \<open>generate_fallback_jobs\<close> returns on the same random state: a list
  as long as the title list, that is 15 records, each with source \<open>Generated\<close>.
\<close>

theorem fallback_when_all_empty:
  assumes "scrape_production_hub w = Inr []"
    and "fst (scrape_film_jobs_com w) = Inr []"
    and "scrape_mandy_network w = Inr []"
  shows "scrape_film_jobs w g = generate_fallback_jobs g \<and>
         (\<exists>jobs g'. generate_fallback_jobs g = (Inr jobs, g') \<and>
            length jobs = length job_titles \<and> length jobs = 15 \<and>
            (\<forall>j \<in> set jobs. source j = ''Generated''))"
proof
  show "scrape_film_jobs w g = generate_fallback_jobs g"
    using scrape_film_jobs_eq [OF assms, of g] by simp
  let ?jobs = "map (fallback_job g) (enumerate 0 (enumerate 0 job_titles))"
  have "length ?jobs = length job_titles" by simp
  moreover have "length ?jobs = 15" by (simp add: length_job_titles)
  moreover have "\<forall>j \<in> set ?jobs. source j = ''Generated''"
    using fallback_sources by blast
  ultimately show "\<exists>jobs g'. generate_fallback_jobs g = (Inr jobs, g') \<and>
            length jobs = length job_titles \<and> length jobs = 15 \<and>
            (\<forall>j \<in> set jobs. source j = ''Generated'')"
    unfolding generate_fallback_jobs_eq by blast
qed

text \<open>
  Claim C2, witness: the world in which every source is unreachable.
\<close>

theorem fallback_when_all_empty_witness:
  "scrape_production_hub unreachable = Inr [] \<and>
   fst (scrape_film_jobs_com unreachable) = Inr [] \<and>
   scrape_mandy_network unreachable = Inr [] \<and>
   scrape_film_jobs unreachable draws_zero = generate_fallback_jobs draws_zero \<and>
   (case fst (generate_fallback_jobs draws_zero) of
      Inl e \<Rightarrow> False
    | Inr jobs \<Rightarrow> length jobs = 15 \<and> source (jobs ! 14) = ''Generated'')"
proof -
  have a: "scrape_production_hub unreachable = Inr []"
    and b: "fst (scrape_film_jobs_com unreachable) = Inr []"
    and c: "scrape_mandy_network unreachable = Inr []"
    by (simp_all add: unreachable_runs)
  from fallback_when_all_empty [OF a b c, of draws_zero]
  obtain jobs g' where eq: "scrape_film_jobs unreachable draws_zero = generate_fallback_jobs draws_zero"
    and run: "generate_fallback_jobs draws_zero = (Inr jobs, g')"
    and len: "length jobs = 15" and all: "\<forall>j \<in> set jobs. source j = ''Generated''"
    by blast
  from len have "jobs ! 14 \<in> set jobs" by simp
  with all have "source (jobs ! 14) = ''Generated''" by blast
  with a b c eq run len show ?thesis by simp
qed

text \<open>
  Claim C3. When at least one adapter returns a record, the output is the concatenation of
  the ProductionHUB, FilmJobs.com and Mandy Network results in that order, it is non-empty,
  the random state is untouched, and no record has source \<open>Generated\<close>.
\<close>

theorem live_results_concatenated:
  assumes "scrape_production_hub w = Inr jobs1"
    and "fst (scrape_film_jobs_com w) = Inr jobs2"
    and "scrape_mandy_network w = Inr jobs3"
    and "jobs1 \<noteq> [] \<or> jobs2 \<noteq> [] \<or> jobs3 \<noteq> []"
  shows "scrape_film_jobs w g = (Inr (jobs1 @ jobs2 @ jobs3), g) \<and>
         jobs1 @ jobs2 @ jobs3 \<noteq> [] \<and>
         (\<forall>j \<in> set (jobs1 @ jobs2 @ jobs3). source j \<noteq> ''Generated'')"
proof (intro conjI ballI)
  from assms(4) show ne: "jobs1 @ jobs2 @ jobs3 \<noteq> []" by simp
  with scrape_film_jobs_eq [OF assms(1-3), of g]
  show "scrape_film_jobs w g = (Inr (jobs1 @ jobs2 @ jobs3), g)" by auto
  fix j assume "j \<in> set (jobs1 @ jobs2 @ jobs3)"
  then consider "j \<in> set jobs1" | "j \<in> set jobs2" | "j \<in> set jobs3" by auto
  then show "source j \<noteq> ''Generated''"
  proof cases
    case 1
    from scrape_production_hub_mem [OF assms(1) 1] show ?thesis by simp
  next
    case 2
    from scrape_film_jobs_com_mem [OF assms(2) 2] show ?thesis by simp
  next
    case 3
    from scrape_mandy_network_mem [OF assms(3) 3] show ?thesis by simp
  qed
qed

text \<open>
  Claim C3, witness: ProductionHUB is unreachable, FilmJobs.com and Mandy Network answer one
  listing each.
\<close>

theorem live_results_concatenated_witness:
  "scrape_production_hub partly_live_world = Inr [] \<and>
   fst (scrape_film_jobs_com partly_live_world) =
     Inr [\<lparr>title = ''Gaffer'', description = ''Night shoot'', location = ''Austin'',
           source = ''FilmJobs.com''\<rparr>] \<and>
   scrape_mandy_network partly_live_world =
     Inr [\<lparr>title = ''Editor'', description = ''Feature edit'', location = ''Remote'',
           source = ''Mandy Network''\<rparr>] \<and>
   scrape_film_jobs partly_live_world draws_zero =
     (Inr [\<lparr>title = ''Gaffer'', description = ''Night shoot'', location = ''Austin'',
            source = ''FilmJobs.com''\<rparr>,
           \<lparr>title = ''Editor'', description = ''Feature edit'', location = ''Remote'',
            source = ''Mandy Network''\<rparr>], draws_zero) \<and>
   source \<lparr>title = ''Gaffer'', description = ''Night shoot'', location = ''Austin'',
           source = ''FilmJobs.com''\<rparr> \<noteq> ''Generated''"
proof -
  let ?a = "\<lparr>title = ''Gaffer'', description = ''Night shoot'', location = ''Austin'',
           source = ''FilmJobs.com''\<rparr>"
  let ?b = "\<lparr>title = ''Editor'', description = ''Feature edit'', location = ''Remote'',
           source = ''Mandy Network''\<rparr>"
  have 1: "scrape_production_hub partly_live_world = Inr []"
    and 2: "fst (scrape_film_jobs_com partly_live_world) = Inr [?a]"
    and 3: "scrape_mandy_network partly_live_world = Inr [?b]"
    by (simp_all add: partly_live_runs)
  have 4: "[] \<noteq> [] \<or> [?a] \<noteq> [] \<or> [?b] \<noteq> []" by simp
  from live_results_concatenated [OF 1 2 3 4, of draws_zero] 1 2 3
  show ?thesis by simp
qed

subsection \<open>Normalization of one candidate\<close>

lemma production_hub_location_default:
  assumes "production_hub_job e = Inr (Some j)" and "find_tag e ''span'' ''location'' = Inr None"
  shows "location j = ''Remote''"
  using production_hub_job_Some [OF assms(1)] assms(2) by auto

lemma mandy_network_location_default:
  assumes "mandy_network_job e = Inr (Some j)" and "find_tag e ''span'' ''location'' = Inr None"
  shows "location j = ''Remote''"
  using mandy_network_job_Some [OF assms(1)] assms(2) by auto

lemma production_hub_drops_incomplete:
  assumes "find_tag e ''h3'' ''job-title'' = Inr None \<or>
           find_tag e ''div'' ''job-description'' = Inr None"
  shows "production_hub_kept e = []"
proof (cases "production_hub_job e")
  case (Inr r)
  show ?thesis
  proof (cases r)
    case (Some j)
    with Inr assms production_hub_job_Some [of e j] show ?thesis by auto
  qed (simp add: Inr)
qed simp

lemma mandy_network_drops_incomplete:
  assumes "find_tag e ''h2'' ''job-title'' = Inr None \<or>
           find_tag e ''div'' ''job-summary'' = Inr None"
  shows "mandy_network_kept e = []"
proof (cases "mandy_network_job e")
  case (Inr r)
  show ?thesis
  proof (cases r)
    case (Some j)
    with Inr assms mandy_network_job_Some [of e j] show ?thesis by auto
  qed (simp add: Inr)
qed simp

lemma film_jobs_com_drops_incomplete:
  assumes "find_element e ''.job-title'' = Inl x \<or>
           find_element e ''.job-description'' = Inl x \<or>
           find_element e ''.job-location'' = Inl x"
  shows "film_jobs_com_kept e = []"
proof (cases "film_jobs_com_job e")
  case (Inr j)
  with assms film_jobs_com_job_Inr [of e j] show ?thesis by auto
qed simp

text \<open>
  Claim C4, at the failing input. The same candidate, with a title and a description and no
  location element, is given to ProductionHUB's and to FilmJobs.com's adapter: the first
  emits it with location \<open>Remote\<close>, the second drops it, because \<open>find_element\<close> raises
  for the missing \<open>.job-location\<close> and the inner \<open>except\<close> skips the candidate.
\<close>

theorem film_jobs_com_drops_missing_location:
  "scrape_production_hub no_location_world =
     Inr [\<lparr>title = ''Gaffer'', description = ''Night shoot'', location = ''Remote'',
           source = ''ProductionHUB''\<rparr>] \<and>
   fst (scrape_film_jobs_com no_location_world) = Inr []"
  by (simp add: no_location_runs)

text \<open>
  Claim C5. For each of the three adapters: when a candidate is emitted and its raw
  description text is \<open>raw\<close>, the record's description has length exactly 500 if \<open>raw\<close> is
  longer than 500 characters, and is \<open>raw\<close> itself otherwise.
\<close>

theorem description_truncation:
  "(production_hub_job e = Inr (Some j) \<longrightarrow>
      find_tag e ''div'' ''job-description'' = Inr (Some d) \<longrightarrow> get_text d = Inr raw \<longrightarrow>
      (500 < length raw \<longrightarrow> length (description j) = 500) \<and>
      (length raw \<le> 500 \<longrightarrow> description j = raw)) \<and>
   (film_jobs_com_job e' = Inr j' \<longrightarrow>
      find_element e' ''.job-description'' = Inr d' \<longrightarrow> element_text d' = Inr raw' \<longrightarrow>
      (500 < length raw' \<longrightarrow> length (description j') = 500) \<and>
      (length raw' \<le> 500 \<longrightarrow> description j' = raw')) \<and>
   (mandy_network_job e'' = Inr (Some j'') \<longrightarrow>
      find_tag e'' ''div'' ''job-summary'' = Inr (Some d'') \<longrightarrow> get_text d'' = Inr raw'' \<longrightarrow>
      (500 < length raw'' \<longrightarrow> length (description j'') = 500) \<and>
      (length raw'' \<le> 500 \<longrightarrow> description j'' = raw''))"
proof (intro conjI impI)
  assume "production_hub_job e = Inr (Some j)"
    and "find_tag e ''div'' ''job-description'' = Inr (Some d)" and "get_text d = Inr raw"
  then have *: "description j = take 500 raw"
    using production_hub_job_Some [of e j] by auto
  { assume "500 < length raw" with * show "length (description j) = 500" by simp }
  { assume "length raw \<le> 500" with * show "description j = raw" by simp }
next
  assume "film_jobs_com_job e' = Inr j'"
    and "find_element e' ''.job-description'' = Inr d'" and "element_text d' = Inr raw'"
  then have *: "description j' = take 500 raw'"
    using film_jobs_com_job_Inr [of e' j'] by auto
  { assume "500 < length raw'" with * show "length (description j') = 500" by simp }
  { assume "length raw' \<le> 500" with * show "description j' = raw'" by simp }
next
  assume "mandy_network_job e'' = Inr (Some j'')"
    and "find_tag e'' ''div'' ''job-summary'' = Inr (Some d'')" and "get_text d'' = Inr raw''"
  then have *: "description j'' = take 500 raw''"
    using mandy_network_job_Some [of e'' j''] by auto
  { assume "500 < length raw''" with * show "length (description j'') = 500" by simp }
  { assume "length raw'' \<le> 500" with * show "description j'' = raw''" by simp }
qed

lemma long_text_length: "length long_text = 501"
  by (simp add: long_text_def)

lemma take_long_text: "take 500 long_text = replicate 500 (CHR ''x'')"
  by (simp add: long_text_def)

text \<open>
  Claim C5, witness: for each adapter one candidate with a description of 501 characters and
  one with a short description.
\<close>

theorem description_truncation_witness:
  "production_hub_job long_listing =
     Inr (Some \<lparr>title = ''Grip'', description = replicate 500 (CHR ''x''),
                location = ''Remote'', source = ''ProductionHUB''\<rparr>) \<and>
   500 < length long_text \<and>
   length (replicate 500 (CHR ''x'')) = 500 \<and>
   film_jobs_com_job short_item =
     Inr \<lparr>title = ''Gaffer'', description = ''Night shoot'', location = ''Austin'',
          source = ''FilmJobs.com''\<rparr> \<and>
   length ''Night shoot'' \<le> 500 \<and>
   mandy_network_job long_card =
     Inr (Some \<lparr>title = ''Editor'', description = replicate 500 (CHR ''x''),
                location = ''Remote'', source = ''Mandy Network''\<rparr>) \<and>
   production_hub_job short_listing =
     Inr (Some \<lparr>title = ''Gaffer'', description = ''Night shoot'', location = ''Remote'',
                source = ''ProductionHUB''\<rparr>) \<and>
   film_jobs_com_job long_item =
     Inr \<lparr>title = ''Grip'', description = replicate 500 (CHR ''x''), location = ''Austin'',
          source = ''FilmJobs.com''\<rparr> \<and>
   mandy_network_job short_card =
     Inr (Some \<lparr>title = ''Editor'', description = ''Feature edit'', location = ''Remote'',
                source = ''Mandy Network''\<rparr>) \<and>
   length ''Feature edit'' \<le> 500"
proof -
  let ?x = "replicate 500 (CHR ''x'')"
  let ?phL = "\<lparr>title = ''Grip'', description = ?x, location = ''Remote'',
               source = ''ProductionHUB''\<rparr>"
  let ?phS = "\<lparr>title = ''Gaffer'', description = ''Night shoot'', location = ''Remote'',
               source = ''ProductionHUB''\<rparr>"
  let ?fjL = "\<lparr>title = ''Grip'', description = ?x, location = ''Austin'',
               source = ''FilmJobs.com''\<rparr>"
  let ?fjS = "\<lparr>title = ''Gaffer'', description = ''Night shoot'', location = ''Austin'',
               source = ''FilmJobs.com''\<rparr>"
  let ?mL = "\<lparr>title = ''Editor'', description = ?x, location = ''Remote'',
              source = ''Mandy Network''\<rparr>"
  let ?mS = "\<lparr>title = ''Editor'', description = ''Feature edit'', location = ''Remote'',
              source = ''Mandy Network''\<rparr>"
  have runs:
    "production_hub_job long_listing = Inr (Some ?phL)"
    "film_jobs_com_job short_item = Inr ?fjS"
    "mandy_network_job long_card = Inr (Some ?mL)"
    "production_hub_job short_listing = Inr (Some ?phS)"
    "film_jobs_com_job long_item = Inr ?fjL"
    "mandy_network_job short_card = Inr (Some ?mS)"
    by (simp_all add: long_listing_def short_item_def long_card_def short_listing_def
        long_item_def short_card_def concrete_defs adapter_defs take_long_text)
  have raws:
    "find_tag long_listing ''div'' ''job-description'' = Inr (Some (text_tag long_text))"
    "get_text (text_tag long_text) = Inr long_text"
    "find_element short_item ''.job-description'' = Inr (web_text ''Night shoot'')"
    "element_text (web_text ''Night shoot'') = Inr ''Night shoot''"
    "find_tag long_card ''div'' ''job-summary'' = Inr (Some (text_tag long_text))"
    "find_tag short_listing ''div'' ''job-description'' = Inr (Some (text_tag ''Night shoot''))"
    "get_text (text_tag ''Night shoot'') = Inr ''Night shoot''"
    "find_element long_item ''.job-description'' = Inr (web_text long_text)"
    "element_text (web_text long_text) = Inr long_text"
    "find_tag short_card ''div'' ''job-summary'' = Inr (Some (text_tag ''Feature edit''))"
    "get_text (text_tag ''Feature edit'') = Inr ''Feature edit''"
    by (simp_all add: long_listing_def short_item_def long_card_def short_listing_def
        long_item_def short_card_def concrete_defs)
  have long: "500 < length long_text" by (simp add: long_text_length)
  have short: "length ''Night shoot'' \<le> 500" "length ''Feature edit'' \<le> 500" by simp_all
  from description_truncation
    [of long_listing ?phL "text_tag long_text" long_text
        short_item ?fjS "web_text ''Night shoot''" "''Night shoot''"
        long_card ?mL "text_tag long_text" long_text]
    description_truncation
    [of short_listing ?phS "text_tag ''Night shoot''" "''Night shoot''"
        long_item ?fjL "web_text long_text" long_text
        short_card ?mS "text_tag ''Feature edit''" "''Feature edit''"]
    runs raws long short
  show ?thesis by simp
qed

subsection \<open>Caps, isolation and the browser session\<close>

text \<open>
  Claim C6. In every world \<open>scrape_production_hub\<close> returns at most 20 records,
  \<open>scrape_film_jobs_com\<close> at most 15 and \<open>scrape_mandy_network\<close> at most 10.
\<close>

theorem adapter_caps:
  "(\<exists>jobs. scrape_production_hub w = Inr jobs \<and> length jobs \<le> 20) \<and>
   (\<exists>jobs. fst (scrape_film_jobs_com w) = Inr jobs \<and> length jobs \<le> 15) \<and>
   (\<exists>jobs. scrape_mandy_network w = Inr jobs \<and> length jobs \<le> 10)"
proof (intro conjI)
  obtain es where "scrape_production_hub w = Inr (production_hub_loop (take 20 es) [])"
    using scrape_production_hub_result by blast
  moreover have "length (production_hub_loop (take 20 es) []) \<le> 20"
    using length_production_hub_loop [of "take 20 es"] by simp
  ultimately show "\<exists>jobs. scrape_production_hub w = Inr jobs \<and> length jobs \<le> 20" by blast
next
  obtain es where "fst (scrape_film_jobs_com w) = Inr (film_jobs_com_loop (take 15 es) [])"
    using scrape_film_jobs_com_result by blast
  moreover have "length (film_jobs_com_loop (take 15 es) []) \<le> 15"
    using length_film_jobs_com_loop [of "take 15 es"] by simp
  ultimately show "\<exists>jobs. fst (scrape_film_jobs_com w) = Inr jobs \<and> length jobs \<le> 15"
    by blast
next
  obtain es where "scrape_mandy_network w = Inr (mandy_network_loop (take 10 es) [])"
    using scrape_mandy_network_result by blast
  moreover have "length (mandy_network_loop (take 10 es) []) \<le> 10"
    using length_mandy_network_loop [of "take 10 es"] by simp
  ultimately show "\<exists>jobs. scrape_mandy_network w = Inr jobs \<and> length jobs \<le> 10" by blast
qed

text \<open>
  Claim C7. In every world, whichever calls raise, each adapter returns a list: the jobs
  collected when its \<open>try\<close> body ended, which is the empty list when the retrieval failed.
  No exception leaves an adapter, so the aggregator runs all three and returns their
  concatenation, or the fallback jobs when that is empty.
\<close>

theorem adapter_isolation:
  "\<exists>jobs1 jobs2 jobs3 jobs g'.
     scrape_production_hub w = Inr jobs1 \<and>
     jobs1 = (case production_hub_body w [] of Inl e \<Rightarrow> [] | Inr js \<Rightarrow> js) \<and>
     fst (scrape_film_jobs_com w) = Inr jobs2 \<and>
     jobs2 = fst (snd (film_jobs_com_body w [])) \<and>
     scrape_mandy_network w = Inr jobs3 \<and>
     jobs3 = (case mandy_network_body w [] of Inl e \<Rightarrow> [] | Inr js \<Rightarrow> js) \<and>
     scrape_film_jobs w g = (Inr jobs, g') \<and>
     (jobs = jobs1 @ jobs2 @ jobs3 \<or>
      jobs1 @ jobs2 @ jobs3 = [] \<and> generate_fallback_jobs g = (Inr jobs, g'))"
proof -
  let ?j1 = "case production_hub_body w [] of Inl e \<Rightarrow> [] | Inr js \<Rightarrow> js"
  let ?j2 = "fst (snd (film_jobs_com_body w []))"
  let ?j3 = "case mandy_network_body w [] of Inl e \<Rightarrow> [] | Inr js \<Rightarrow> js"
  have 1: "scrape_production_hub w = Inr ?j1"
    by (simp add: scrape_production_hub_def split: sum.splits)
  have 2: "fst (scrape_film_jobs_com w) = Inr ?j2"
    by (simp add: scrape_film_jobs_com_def split: prod.splits sum.splits)
  have 3: "scrape_mandy_network w = Inr ?j3"
    by (simp add: scrape_mandy_network_def split: sum.splits)
  note eq = scrape_film_jobs_eq [OF 1 2 3, of g]
  show ?thesis
  proof (cases "?j1 @ ?j2 @ ?j3 = []")
    case True
    with eq have "scrape_film_jobs w g = generate_fallback_jobs g" by simp
    moreover obtain jobs g' where "generate_fallback_jobs g = (Inr jobs, g')"
      using generate_fallback_jobs_eq by blast
    ultimately show ?thesis using 1 2 3 True by auto
  next
    case False
    with eq have "scrape_film_jobs w g = (Inr (?j1 @ ?j2 @ ?j3), g)" by auto
    with 1 2 3 show ?thesis by blast
  qed
qed

text \<open>
  Claim C8, at the failing input. \<open>webdriver.Chrome\<close> answers a driver and \<open>driver.get\<close>
  raises: the adapter returns the empty list and the only call made on the driver is \<open>get\<close>.
  \<open>driver.quit()\<close> is the last statement of the \<open>try\<close> body and there is no \<open>finally\<close>, so the
  session is not released on this path.
\<close>

theorem session_left_open_when_get_raises:
  "(case Chrome get_fails_world of Inl e \<Rightarrow> False | Inr d \<Rightarrow> True) \<and>
   scrape_film_jobs_com get_fails_world = (Inr [], [Get]) \<and>
   Quit \<notin> set (snd (scrape_film_jobs_com get_fails_world))"
  by (simp add: get_fails_runs) (simp add: get_fails_world_def make_world_def)

lemma quit_called_after_loop:
  assumes "Chrome w = Inr d" and "driver_get d ''https://www.filmjobs.com'' = Inr u"
    and "find_elements d ''.job-item'' = Inr es"
  shows "snd (scrape_film_jobs_com w) = [Get, FindElements, Quit]"
  using assms
  by (simp add: scrape_film_jobs_com_def film_jobs_com_body_def split: sum.splits)

subsection \<open>Profiles and fallback jobs\<close>

text \<open>
  Claim C9. For every random source \<open>scrape_film_professionals\<close> returns exactly 100
  profiles, and each has between 3 and 8 skills, pairwise distinct and all from
  \<open>film_skills\<close>, a role from \<open>film_categories\<close> and a location among the cities of
  \<open>film_locations\<close>.
\<close>

theorem profiles_valid:
  "\<exists>professionals g'.
     scrape_film_professionals g = (Inr professionals, g') \<and>
     length professionals = 100 \<and>
     (\<forall>p \<in> set professionals.
        3 \<le> length (skills p) \<and> length (skills p) \<le> 8 \<and> distinct (skills p) \<and>
        set (skills p) \<subseteq> set film_skills \<and>
        role p \<in> set film_categories \<and>
        location_prof p \<in> set all_cities)"
  using professionals_loop_valid [of 100 "[]" g]
  by (simp add: scrape_film_professionals_def)

text \<open>
  Claim C10. The title list and the description list both have 15 entries, so
  \<open>i % len(job_descriptions)\<close> is \<open>i\<close>: for every random source the fallback jobs carry the
  titles and the descriptions of the two lists, position by position, and only the
  location is read from the random source.
\<close>

theorem fallback_jobs_fixed:
  "length job_titles = 15 \<and> length job_descriptions = 15 \<and>
   (\<exists>jobs g'. generate_fallback_jobs g = (Inr jobs, g') \<and>
      length jobs = 15 \<and>
      map title jobs = job_titles \<and>
      map description jobs = job_descriptions \<and>
      map location jobs = map (\<lambda>k. all_cities ! (g k mod length all_cities)) [0..<15])"
proof -
  let ?jobs = "map (fallback_job g) (enumerate 0 (enumerate 0 job_titles))"
  have "length ?jobs = 15" by (simp add: length_job_titles)
  moreover have "map location ?jobs =
      map (\<lambda>k. all_cities ! (g k mod length all_cities)) [0..<15]"
    using fallback_locations [of g] by (simp only: length_job_titles)
  ultimately show ?thesis
    using fallback_titles [of g] fallback_descriptions [of g]
      length_job_titles length_job_descriptions
    unfolding generate_fallback_jobs_eq by blast
qed

lemma randbelow_draws_zero: "randbelow n draws_zero = (0, draws_zero)"
  by (simp add: randbelow_def draws_zero_def)

lemma choice_draws_zero: "seq \<noteq> [] \<Longrightarrow> choice seq draws_zero = (Inr (seq ! 0), draws_zero)"
  by (simp add: choice_def randbelow_draws_zero)

lemma randint_draws_zero: "randint 3 8 draws_zero = (Inr 3, draws_zero)"
  by (simp add: randint_def randbelow_draws_zero)

lemma sample_draws_zero:
  "sample film_skills 3 draws_zero =
     (Inr [''Final Cut Pro'', ''Budgeting'', ''Script Analysis''], draws_zero)"
proof -
  have "sample_pool film_skills (Suc (Suc (Suc 0))) draws_zero =
          ([''Final Cut Pro'', ''Budgeting'', ''Script Analysis''], draws_zero)"
    by (simp add: randbelow_draws_zero film_skills_def)
  then show ?thesis
    by (simp add: sample_def length_film_skills numeral_3_eq_3)
qed

lemma make_professional_draws_zero:
  "make_professional draws_zero = (Inr zero_profile, draws_zero)"
proof -
  have fn: "first_names \<noteq> []" and ln: "last_names \<noteq> []" and fc: "film_categories \<noteq> []"
    and fb: "film_bios \<noteq> []" and ex: "experiences \<noteq> []"
    by (simp_all add: first_names_def last_names_def film_categories_def film_bios_def
        experiences_def)
  have heads: "first_names ! 0 = firstName zero_profile" "last_names ! 0 = lastName zero_profile"
    "film_categories ! 0 = role zero_profile" "film_bios ! 0 = bio zero_profile"
    "experiences ! 0 = experience zero_profile" "all_cities ! 0 = location_prof zero_profile"
    by (simp_all add: first_names_def last_names_def film_categories_def film_bios_def
        experiences_def all_cities_def film_locations_def zero_profile_def)
  have sk: "skills zero_profile = [''Final Cut Pro'', ''Budgeting'', ''Script Analysis'']"
    by (simp add: zero_profile_def)
  have "make_professional draws_zero =
      (Inr \<lparr>firstName = firstName zero_profile, lastName = lastName zero_profile,
            role = role zero_profile, bio = bio zero_profile, skills = skills zero_profile,
            experience = experience zero_profile,
            location_prof = location_prof zero_profile\<rparr>, draws_zero)"
    unfolding make_professional_def rand_bind_def generate_film_experience_def
    by (simp add: choice_draws_zero fn ln fc fb ex all_cities_nonempty randint_draws_zero
        sample_draws_zero heads sk)
  then show ?thesis by simp
qed

lemma professionals_loop_draws_zero:
  "professionals_loop n professionals draws_zero =
     (Inr (professionals @ replicate n zero_profile), draws_zero)"
  by (induction n arbitrary: professionals)
    (simp_all add: make_professional_draws_zero replicate_app_Cons_same)

text \<open>
  Claim C9, witness: the random source whose every draw is 0 yields 100 copies of one
  profile, which is a member of the output and has the stated properties.
\<close>

theorem profiles_valid_witness:
  "scrape_film_professionals draws_zero = (Inr (replicate 100 zero_profile), draws_zero) \<and>
   length (replicate 100 zero_profile) = 100 \<and>
   zero_profile \<in> set (replicate 100 zero_profile) \<and>
   skills zero_profile = [''Final Cut Pro'', ''Budgeting'', ''Script Analysis''] \<and>
   3 \<le> length (skills zero_profile) \<and> length (skills zero_profile) \<le> 8 \<and>
   distinct (skills zero_profile) \<and>
   set (skills zero_profile) \<subseteq> set film_skills \<and>
   role zero_profile \<in> set film_categories \<and>
   location_prof zero_profile \<in> set all_cities"
proof -
  have run: "scrape_film_professionals draws_zero =
               (Inr (replicate 100 zero_profile), draws_zero)"
    using professionals_loop_draws_zero [of 100 "[]"]
    by (simp only: scrape_film_professionals_def append_Nil)
  obtain ps g' where r: "scrape_film_professionals draws_zero = (Inr ps, g')"
    and len: "length ps = 100"
    and all: "\<forall>p \<in> set ps.
        3 \<le> length (skills p) \<and> length (skills p) \<le> 8 \<and> distinct (skills p) \<and>
        set (skills p) \<subseteq> set film_skills \<and>
        role p \<in> set film_categories \<and>
        location_prof p \<in> set all_cities"
    using profiles_valid [of draws_zero] by blast
  from r run have ps: "ps = replicate 100 zero_profile" by simp
  have mem: "zero_profile \<in> set (replicate 100 zero_profile)"
    by (simp only: set_replicate_conv_if) simp
  with all ps have valid:
    "3 \<le> length (skills zero_profile) \<and> length (skills zero_profile) \<le> 8 \<and>
     distinct (skills zero_profile) \<and> set (skills zero_profile) \<subseteq> set film_skills \<and>
     role zero_profile \<in> set film_categories \<and>
     location_prof zero_profile \<in> set all_cities"
    by blast
  have sk: "skills zero_profile = [''Final Cut Pro'', ''Budgeting'', ''Script Analysis'']"
    by (simp add: zero_profile_def)
  have l: "length (replicate 100 zero_profile) = 100" by (rule length_replicate)
  from run l mem sk valid show ?thesis by blast
qed

end
